theory Spec2Isabelle
  imports Main "HOL-Library.Word"
begin

section \<open>The NovusDB Python driver (drivers/python/novusdb.py)\<close>

text \<open>
  The driver is a thin ctypes wrapper: class \<open>NovusDB\<close> keeps two attributes,
  \<open>_lib\<close> (the loaded shared library) and \<open>_handle\<close> (the integer returned by
  \<open>NovusDB_open\<close>), and every method forwards to one function of the library.

  The shared library, \<open>str.encode\<close>, \<open>bytes.decode\<close> and \<open>json.loads\<close> are not code
  of the driver. They are parameters of the model: the library is a record of functions
  over an engine state of any type \<open>'n\<close>, the three Python built-ins are a record of
  functions that return a value or the exception they raise. Every theorem below holds
  for all of them.
\<close>

subsection \<open>Python values and exceptions\<close>

type_synonym str = string
type_synonym bytes = string
type_synonym handle = "64 word"

text \<open>
  What \<open>json.loads\<close> can return. A dict is an association list; \<open>PFloat\<close> carries the
  64 bits of the float, which the driver never looks at.
\<close>

datatype pyval =
    PNone
  | PBool bool
  | PInt int
  | PFloat "64 word"
  | PStr str
  | PList "pyval list"
  | PDict "(str \<times> pyval) list"

text \<open>
  The exceptions a method of the class can raise. \<open>RuntimeError\<close> is the only one the
  driver raises itself (lines 108, 123, 140); its argument is any Python value.
  \<open>AttributeError\<close> is \<open>None.decode\<close>, \<open>TypeError\<close> and \<open>KeyError\<close> come from
  \<open>in\<close> and from indexing, \<open>JSONDecodeError\<close>, \<open>RecursionError\<close> and \<open>ValueError\<close> from
  \<open>json.loads\<close>, the last two from \<open>str.encode\<close> and \<open>bytes.decode\<close>.
\<close>

datatype error =
    RuntimeError pyval
  | AttributeError
  | TypeError
  | KeyError
  | JSONDecodeError
  | RecursionError
  | ValueError
  | UnicodeEncodeError
  | UnicodeDecodeError

text \<open>
  \<open>isinstance(e, RuntimeError)\<close>, which is what \<open>except RuntimeError\<close> tests:
  \<open>RecursionError\<close> is a subclass of \<open>RuntimeError\<close>. \<open>JSONDecodeError\<close> and the two
  Unicode errors are subclasses of \<open>ValueError\<close>.
\<close>

fun is_RuntimeError :: "error \<Rightarrow> bool" where
  "is_RuntimeError (RuntimeError m) = True"
| "is_RuntimeError RecursionError = True"
| "is_RuntimeError e = False"

definition raises_RuntimeError :: "error + 'a \<Rightarrow> bool" where
  "raises_RuntimeError r = (case r of Inl e \<Rightarrow> is_RuntimeError e | Inr v \<Rightarrow> False)"

subsection \<open>The native boundary\<close>

text \<open>
  The signatures declared in lines 77-103: \<open>c_longlong\<close> is a 64-bit word, \<open>c_int\<close> a
  32-bit word, a \<open>c_char_p\<close> result is \<open>None\<close> for the null pointer and the bytes up to
  the terminator otherwise. Each function also transforms the engine's state.
\<close>

record 'n cdll =
  NovusDB_open :: "bytes \<Rightarrow> 'n \<Rightarrow> handle \<times> 'n"
  NovusDB_close :: "handle \<Rightarrow> 'n \<Rightarrow> 32 word \<times> 'n"
  NovusDB_exec :: "handle \<Rightarrow> bytes \<Rightarrow> 'n \<Rightarrow> bytes option \<times> 'n"
  NovusDB_insert_json :: "handle \<Rightarrow> bytes \<Rightarrow> bytes \<Rightarrow> 'n \<Rightarrow> 64 word \<times> 'n"
  NovusDB_collections :: "handle \<Rightarrow> 'n \<Rightarrow> bytes option \<times> 'n"
  NovusDB_error :: "handle \<Rightarrow> 'n \<Rightarrow> bytes option \<times> 'n"
  NovusDB_dump :: "handle \<Rightarrow> 'n \<Rightarrow> bytes option \<times> 'n"

text \<open>Every call that crosses the boundary is recorded, with its arguments.\<close>

datatype ncall =
    CallOpen bytes
  | CallClose handle
  | CallExec handle bytes
  | CallInsert handle bytes bytes
  | CallCollections handle
  | CallError handle
  | CallDump handle

record 'n world =
  engine :: 'n
  trace :: "ncall list"

definition call_open :: "'n cdll \<Rightarrow> bytes \<Rightarrow> 'n world \<Rightarrow> handle \<times> 'n world" where
  "call_open L p w =
     (case NovusDB_open L p (engine w) of
        (h, n) \<Rightarrow> (h, \<lparr>engine = n, trace = trace w @ [CallOpen p]\<rparr>))"

definition call_close :: "'n cdll \<Rightarrow> handle \<Rightarrow> 'n world \<Rightarrow> 32 word \<times> 'n world" where
  "call_close L h w =
     (case NovusDB_close L h (engine w) of
        (st, n) \<Rightarrow> (st, \<lparr>engine = n, trace = trace w @ [CallClose h]\<rparr>))"

definition call_exec :: "'n cdll \<Rightarrow> handle \<Rightarrow> bytes \<Rightarrow> 'n world \<Rightarrow> bytes option \<times> 'n world" where
  "call_exec L h q w =
     (case NovusDB_exec L h q (engine w) of
        (raw, n) \<Rightarrow> (raw, \<lparr>engine = n, trace = trace w @ [CallExec h q]\<rparr>))"

definition call_insert_json ::
  "'n cdll \<Rightarrow> handle \<Rightarrow> bytes \<Rightarrow> bytes \<Rightarrow> 'n world \<Rightarrow> 64 word \<times> 'n world" where
  "call_insert_json L h c j w =
     (case NovusDB_insert_json L h c j (engine w) of
        (i, n) \<Rightarrow> (i, \<lparr>engine = n, trace = trace w @ [CallInsert h c j]\<rparr>))"

definition call_collections :: "'n cdll \<Rightarrow> handle \<Rightarrow> 'n world \<Rightarrow> bytes option \<times> 'n world" where
  "call_collections L h w =
     (case NovusDB_collections L h (engine w) of
        (raw, n) \<Rightarrow> (raw, \<lparr>engine = n, trace = trace w @ [CallCollections h]\<rparr>))"

definition call_error :: "'n cdll \<Rightarrow> handle \<Rightarrow> 'n world \<Rightarrow> bytes option \<times> 'n world" where
  "call_error L h w =
     (case NovusDB_error L h (engine w) of
        (raw, n) \<Rightarrow> (raw, \<lparr>engine = n, trace = trace w @ [CallError h]\<rparr>))"

definition call_dump :: "'n cdll \<Rightarrow> handle \<Rightarrow> 'n world \<Rightarrow> bytes option \<times> 'n world" where
  "call_dump L h w =
     (case NovusDB_dump L h (engine w) of
        (raw, n) \<Rightarrow> (raw, \<lparr>engine = n, trace = trace w @ [CallDump h]\<rparr>))"

subsection \<open>The Python built-ins the driver calls\<close>

text \<open>
  \<open>encode s\<close> is \<open>s.encode("utf-8")\<close> and \<open>decode b\<close> is \<open>b.decode("utf-8")\<close>;
  \<open>None\<close> is the exception each of them raises (\<open>UnicodeEncodeError\<close>,
  \<open>UnicodeDecodeError\<close>).

  \<open>json_loads s\<close> is \<open>json.loads(s)\<close> on a string. It fails in three ways: the text
  is not what the parser accepts (\<open>JSONDecodeError\<close>), the text is nested deeper than the
  interpreter's recursion limit (\<open>RecursionError\<close>), or an integer literal has more
  digits than the interpreter's limit of 4300 (\<open>ValueError\<close>). What the parser accepts
  is not exactly JSON: it also reads \<open>NaN\<close>, \<open>Infinity\<close> and \<open>-Infinity\<close>.
\<close>

datatype loads_failure = Malformed | TooDeep | TooManyDigits

fun loads_error :: "loads_failure \<Rightarrow> error" where
  "loads_error Malformed = JSONDecodeError"
| "loads_error TooDeep = RecursionError"
| "loads_error TooManyDigits = ValueError"

record pyrt =
  encode :: "str \<Rightarrow> bytes option"
  decode :: "bytes \<Rightarrow> str option"
  json_loads :: "str \<Rightarrow> loads_failure + pyval"

text \<open>\<open>sub in s\<close> on two strings: \<open>sub\<close> occurs in \<open>s\<close> as a contiguous run.\<close>

fun str_contains :: "str \<Rightarrow> str \<Rightarrow> bool" where
  "str_contains [] sub = (sub = [])"
| "str_contains (c # cs) sub = (take (length sub) (c # cs) = sub \<or> str_contains cs sub)"

text \<open>
  \<open>key in v\<close> for a string \<open>key\<close>: membership among the keys of a dict, among the
  elements of a list, substring test on a string, \<open>TypeError\<close> on anything else.
\<close>

fun py_in :: "str \<Rightarrow> pyval \<Rightarrow> error + bool" where
  "py_in key (PDict d) = Inr (map_of d key \<noteq> None)"
| "py_in key (PList xs) = Inr (PStr key \<in> set xs)"
| "py_in key (PStr s) = Inr (str_contains s key)"
| "py_in key PNone = Inl TypeError"
| "py_in key (PBool b) = Inl TypeError"
| "py_in key (PInt i) = Inl TypeError"
| "py_in key (PFloat f) = Inl TypeError"

text \<open>
  \<open>v[key]\<close> for a string \<open>key\<close>: the value stored in a dict (\<open>KeyError\<close> when the
  key is missing, which line 122 excludes), \<open>TypeError\<close> on a list or a string, whose
  indices are integers, and on the values that cannot be indexed at all.
\<close>

fun py_getitem :: "pyval \<Rightarrow> str \<Rightarrow> error + pyval" where
  "py_getitem (PDict d) key = (case map_of d key of Some v \<Rightarrow> Inr v | None \<Rightarrow> Inl KeyError)"
| "py_getitem v key = Inl TypeError"

subsection \<open>The class\<close>

record 'n conn =
  lib :: "'n cdll"
  handle :: handle

text \<open>
  A method returns its result or the exception it raises, the object, and the world.
\<close>

type_synonym ('a, 'n) outcome = "(error + 'a) \<times> 'n conn \<times> 'n world"

text \<open>
  \<open>__init__\<close>, lines 105-108. The library \<open>L\<close> is the one lines 69-103 loaded and
  bound; when that part raises, the caller gets no object and no native call was made.
  \<^verbatim>\<open>
  self._handle = self._lib.NovusDB_open(path.encode("utf-8"))
  if self._handle == 0:
      raise RuntimeError(f"Failed to open database: {path}")
  \<close>
\<close>

definition NovusDB_init ::
  "pyrt \<Rightarrow> 'n cdll \<Rightarrow> str \<Rightarrow> 'n world \<Rightarrow> (error + 'n conn) \<times> 'n world" where
  "NovusDB_init rt L path w =
     (case encode rt path of
        None \<Rightarrow> (Inl UnicodeEncodeError, w)
      | Some p \<Rightarrow>
          (case call_open L p w of
             (h, w1) \<Rightarrow>
               if h = 0
               then (Inl (RuntimeError (PStr (''Failed to open database: '' @ path))), w1)
               else (Inr \<lparr>lib = L, handle = h\<rparr>, w1)))"

text \<open>
  \<open>exec\<close>, lines 118-124:
  \<^verbatim>\<open>
  raw = self._lib.NovusDB_exec(self._handle, sql.encode("utf-8"))
  result = json.loads(raw.decode("utf-8"))
  if "error" in result:
      raise RuntimeError(result["error"])
  return result
  \<close>
\<close>

definition exec_result :: "pyval \<Rightarrow> error + pyval" where
  "exec_result result =
     (case py_in ''error'' result of
        Inl e \<Rightarrow> Inl e
      | Inr True \<Rightarrow>
          (case py_getitem result ''error'' of
             Inl e \<Rightarrow> Inl e
           | Inr msg \<Rightarrow> Inl (RuntimeError msg))
      | Inr False \<Rightarrow> Inr result)"

definition loads_raw :: "pyrt \<Rightarrow> bytes option \<Rightarrow> error + pyval" where
  "loads_raw rt raw =
     (case raw of
        None \<Rightarrow> Inl AttributeError
      | Some b \<Rightarrow>
          (case decode rt b of
             None \<Rightarrow> Inl UnicodeDecodeError
           | Some s \<Rightarrow>
               (case json_loads rt s of
                  Inl f \<Rightarrow> Inl (loads_error f)
                | Inr v \<Rightarrow> Inr v)))"

definition exec :: "pyrt \<Rightarrow> 'n conn \<Rightarrow> str \<Rightarrow> 'n world \<Rightarrow> (pyval, 'n) outcome" where
  "exec rt self sql w =
     (case encode rt sql of
        None \<Rightarrow> (Inl UnicodeEncodeError, self, w)
      | Some q \<Rightarrow>
          (case call_exec (lib self) (handle self) q w of
             (raw, w1) \<Rightarrow>
               (case loads_raw rt raw of
                  Inl e \<Rightarrow> (Inl e, self, w1)
                | Inr result \<Rightarrow> (exec_result result, self, w1))))"

text \<open>
  \<open>last_error\<close>, lines 150-151, and \<open>dump\<close>, lines 155-156:
  \<^verbatim>\<open>
  raw = self._lib.NovusDB_error(self._handle)
  return raw.decode("utf-8") if raw else ""
  \<close>
  \<open>raw\<close> is false when it is \<open>None\<close> and when it is the empty bytes.
\<close>

definition decode_or_empty :: "pyrt \<Rightarrow> bytes option \<Rightarrow> error + str" where
  "decode_or_empty rt raw =
     (case raw of
        None \<Rightarrow> Inr ''''
      | Some b \<Rightarrow>
          if b = [] then Inr ''''
          else (case decode rt b of None \<Rightarrow> Inl UnicodeDecodeError | Some s \<Rightarrow> Inr s))"

definition last_error :: "pyrt \<Rightarrow> 'n conn \<Rightarrow> 'n world \<Rightarrow> (str, 'n) outcome" where
  "last_error rt self w =
     (case call_error (lib self) (handle self) w of
        (raw, w1) \<Rightarrow> (decode_or_empty rt raw, self, w1))"

definition dump :: "pyrt \<Rightarrow> 'n conn \<Rightarrow> 'n world \<Rightarrow> (str, 'n) outcome" where
  "dump rt self w =
     (case call_dump (lib self) (handle self) w of
        (raw, w1) \<Rightarrow> (decode_or_empty rt raw, self, w1))"

text \<open>
  \<open>insert_json\<close>, lines 133-141:
  \<^verbatim>\<open>
  doc_id = self._lib.NovusDB_insert_json(self._handle,
      collection.encode("utf-8"), json_str.encode("utf-8"))
  if doc_id < 0:
      err = self.last_error()
      raise RuntimeError(err or "insert_json failed")
  return doc_id
  \<close>
  \<open>doc_id\<close> is the signed reading of the 64-bit result.
\<close>

definition insert_json ::
  "pyrt \<Rightarrow> 'n conn \<Rightarrow> str \<Rightarrow> str \<Rightarrow> 'n world \<Rightarrow> (int, 'n) outcome" where
  "insert_json rt self collection json_str w =
     (case encode rt collection of
        None \<Rightarrow> (Inl UnicodeEncodeError, self, w)
      | Some c \<Rightarrow>
          (case encode rt json_str of
             None \<Rightarrow> (Inl UnicodeEncodeError, self, w)
           | Some j \<Rightarrow>
               (case call_insert_json (lib self) (handle self) c j w of
                  (doc_id, w1) \<Rightarrow>
                    if sint doc_id < 0
                    then (case last_error rt self w1 of
                            (Inl e, self2, w2) \<Rightarrow> (Inl e, self2, w2)
                          | (Inr err, self2, w2) \<Rightarrow>
                              (Inl (RuntimeError
                                 (PStr (if err \<noteq> [] then err else ''insert_json failed''))),
                               self2, w2))
                    else (Inr (sint doc_id), self, w1))))"

text \<open>
  \<open>collections\<close>, lines 145-146:
  \<^verbatim>\<open>
  raw = self._lib.NovusDB_collections(self._handle)
  return json.loads(raw.decode("utf-8"))
  \<close>
\<close>

definition collections :: "pyrt \<Rightarrow> 'n conn \<Rightarrow> 'n world \<Rightarrow> (pyval, 'n) outcome" where
  "collections rt self w =
     (case call_collections (lib self) (handle self) w of
        (raw, w1) \<Rightarrow> (loads_raw rt raw, self, w1))"

text \<open>
  \<open>close\<close>, lines 160-162; the status \<open>NovusDB_close\<close> returns is not bound to a name:
  \<^verbatim>\<open>
  if self._handle:
      self._lib.NovusDB_close(self._handle)
      self._handle = 0
  \<close>
  \<open>__exit__\<close> and \<open>__del__\<close> (lines 167-171) call \<open>close\<close>; \<open>__enter__\<close> returns
  \<open>self\<close>.
\<close>

definition close :: "'n conn \<Rightarrow> 'n world \<Rightarrow> (unit, 'n) outcome" where
  "close self w =
     (if handle self \<noteq> 0
      then (case call_close (lib self) (handle self) w of
              (st, w1) \<Rightarrow> (Inr (), self\<lparr>handle := 0\<rparr>, w1))
      else (Inr (), self, w))"

definition NovusDB_enter :: "'n conn \<Rightarrow> 'n world \<Rightarrow> ('n conn, 'n) outcome" where
  "NovusDB_enter self w = (Inr self, self, w)"

definition NovusDB_exit :: "'n conn \<Rightarrow> 'n world \<Rightarrow> (unit, 'n) outcome" where
  "NovusDB_exit self w = close self w"

definition NovusDB_del :: "'n conn \<Rightarrow> 'n world \<Rightarrow> (unit, 'n) outcome" where
  "NovusDB_del self w = close self w"

subsection \<open>Sequences of method calls\<close>

text \<open>
  A caller's program on one object: the methods in order, each exception caught by the
  caller. \<open>releases\<close> marks the three methods that run \<open>close\<close>.
\<close>

datatype op =
    Exec str
  | InsertJson str str
  | Collections
  | LastError
  | Dump
  | Close
  | Enter
  | Exit
  | Del

fun step :: "pyrt \<Rightarrow> op \<Rightarrow> 'n conn \<Rightarrow> 'n world \<Rightarrow> 'n conn \<times> 'n world" where
  "step rt (Exec sql) c w = snd (exec rt c sql w)"
| "step rt (InsertJson col js) c w = snd (insert_json rt c col js w)"
| "step rt Collections c w = snd (collections rt c w)"
| "step rt LastError c w = snd (last_error rt c w)"
| "step rt Dump c w = snd (dump rt c w)"
| "step rt Close c w = snd (close c w)"
| "step rt Enter c w = snd (NovusDB_enter c w)"
| "step rt Exit c w = snd (NovusDB_exit c w)"
| "step rt Del c w = snd (NovusDB_del c w)"

fun run :: "pyrt \<Rightarrow> op list \<Rightarrow> 'n conn \<Rightarrow> 'n world \<Rightarrow> 'n conn \<times> 'n world" where
  "run rt [] c w = (c, w)"
| "run rt (x # xs) c w = (case step rt x c w of (c1, w1) \<Rightarrow> run rt xs c1 w1)"

fun releases :: "op \<Rightarrow> bool" where
  "releases Close = True"
| "releases Exit = True"
| "releases Del = True"
| "releases x = False"

subsection \<open>A call-counting stub of the native boundary\<close>

text \<open>
  Concrete inputs for the examples: a library that answers every call with a fixed reply
  and counts the calls it served, and the three built-ins on the few ASCII texts the
  examples use (UTF-8 leaves ASCII text as it is; \<open>json_table\<close> lists what
  \<open>json.loads\<close> returns on six texts, \<open>deep\<close> is a text of 100000 opening brackets,
  on which it raises \<open>RecursionError\<close>, and the stub rejects every other text as
  malformed, among them \<open>{oops\<close>).
\<close>

definition quoted :: "string \<Rightarrow> string" where
  "quoted s = CHR 0x22 # s @ [CHR 0x22]"

definition reply_ok :: bytes where
  "reply_ok = ''{'' @ quoted ''docs'' @ '':[],'' @ quoted ''rows_affected'' @ '':1,''
     @ quoted ''last_insert_id'' @ '':1}''"

definition reply_error :: bytes where
  "reply_error = ''{'' @ quoted ''error'' @ '':'' @ quoted ''boom'' @ ''}''"

definition reply_message :: bytes where
  "reply_message = ''{'' @ quoted ''message'' @ '':'' @ quoted ''boom'' @ ''}''"

definition reply_users :: bytes where
  "reply_users = ''['' @ quoted ''users'' @ '']''"

definition json_table :: "(str \<times> pyval) list" where
  "json_table =
     [(reply_ok,
       PDict [(''docs'', PList []), (''rows_affected'', PInt 1), (''last_insert_id'', PInt 1)]),
      (reply_error, PDict [(''error'', PStr ''boom'')]),
      (reply_message, PDict [(''message'', PStr ''boom'')]),
      (reply_users, PList [PStr ''users'']),
      (''{}'', PDict []),
      (''1'', PInt 1)]"

definition ascii :: "string \<Rightarrow> bool" where
  "ascii s = list_all (\<lambda>c. \<not> digit7 c) s"

definition deep :: string where
  "deep = replicate 100000 (CHR ''['')"

definition stub_loads :: "str \<Rightarrow> loads_failure + pyval" where
  "stub_loads s =
     (if s = deep then Inl TooDeep
      else (case map_of json_table s of Some v \<Rightarrow> Inr v | None \<Rightarrow> Inl Malformed))"

definition stub_rt :: pyrt where
  "stub_rt =
     \<lparr>encode = (\<lambda>s. if ascii s then Some s else None),
      decode = (\<lambda>b. if ascii b then Some b else None),
      json_loads = stub_loads\<rparr>"

record replies =
  on_open :: handle
  on_close :: "32 word"
  on_exec :: "bytes option"
  on_insert_json :: "64 word"
  on_collections :: "bytes option"
  on_error :: "bytes option"
  on_dump :: "bytes option"

definition stub_lib :: "replies \<Rightarrow> nat cdll" where
  "stub_lib r =
     \<lparr>NovusDB_open = (\<lambda>p n. (on_open r, Suc n)),
      NovusDB_close = (\<lambda>h n. (on_close r, Suc n)),
      NovusDB_exec = (\<lambda>h q n. (on_exec r, Suc n)),
      NovusDB_insert_json = (\<lambda>h c j n. (on_insert_json r, Suc n)),
      NovusDB_collections = (\<lambda>h n. (on_collections r, Suc n)),
      NovusDB_error = (\<lambda>h n. (on_error r, Suc n)),
      NovusDB_dump = (\<lambda>h n. (on_dump r, Suc n))\<rparr>"

text \<open>The replies of a healthy engine: \<open>open("t.db")\<close> gives handle 7.\<close>

definition healthy :: replies where
  "healthy =
     \<lparr>on_open = 7, on_close = 0, on_exec = Some reply_ok, on_insert_json = 1,
      on_collections = Some reply_users, on_error = Some [], on_dump = Some []\<rparr>"

definition w0 :: "nat world" where
  "w0 = \<lparr>engine = 0, trace = []\<rparr>"

text \<open>An object on the stub, open with handle 7, and one whose handle is zero.\<close>

definition c7 :: "replies \<Rightarrow> nat conn" where
  "c7 r = \<lparr>lib = stub_lib r, handle = 7\<rparr>"

definition c_closed :: "replies \<Rightarrow> nat conn" where
  "c_closed r = \<lparr>lib = stub_lib r, handle = 0\<rparr>"

section \<open>Properties\<close>

text \<open>
  The driver has one exception class of its own use, \<open>RuntimeError\<close>, raised at three
  places: line 108 (the database did not open), line 123 (the engine reported an error for
  a statement) and line 140 (an insert was refused). The states of the object are read
  off its handle: open while the handle is not zero, closed while it is zero.
\<close>

lemma not_deep: "length s < 100000 \<Longrightarrow> (s = deep) = False"
  by (auto simp: deep_def)

lemma ascii_deep: "list_all (\<lambda>c. \<not> digit7 c) deep"
  by (simp add: deep_def list_all_iff)

lemmas stub_defs = stub_rt_def stub_loads_def stub_lib_def healthy_def w0_def ascii_def
  json_table_def reply_ok_def reply_error_def reply_message_def reply_users_def quoted_def
  not_deep ascii_deep

lemmas call_defs = call_open_def call_close_def call_exec_def call_insert_json_def
  call_collections_def call_error_def call_dump_def

lemmas method_defs = exec_def loads_raw_def exec_result_def last_error_def dump_def
  decode_or_empty_def insert_json_def collections_def close_def NovusDB_init_def
  NovusDB_enter_def NovusDB_exit_def NovusDB_del_def c7_def c_closed_def

subsection \<open>close\<close>

lemma close_result: "fst (close c w) = Inr ()"
  by (simp add: close_def call_defs split: prod.splits)

lemma close_open:
  "handle c \<noteq> 0 \<Longrightarrow> snd (close c w) =
     (c\<lparr>handle := 0\<rparr>,
      \<lparr>engine = snd (NovusDB_close (lib c) (handle c) (engine w)),
       trace = trace w @ [CallClose (handle c)]\<rparr>)"
  by (simp add: close_def call_defs split: prod.splits)

lemma close_closed: "handle c = 0 \<Longrightarrow> snd (close c w) = (c, w)"
  by (simp add: close_def)

lemma step_release_closed:
  "releases x \<Longrightarrow> handle c = 0 \<Longrightarrow> step rt x c w = (c, w)"
  by (cases x) (simp_all add: close_closed NovusDB_exit_def NovusDB_del_def)

lemma run_release_closed:
  "list_all releases ks \<Longrightarrow> handle c = 0 \<Longrightarrow> run rt ks c w = (c, w)"
  by (induction ks) (simp_all add: step_release_closed)

lemma step_release_open:
  "releases x \<Longrightarrow> handle c \<noteq> 0 \<Longrightarrow> step rt x c w =
     (c\<lparr>handle := 0\<rparr>,
      \<lparr>engine = snd (NovusDB_close (lib c) (handle c) (engine w)),
       trace = trace w @ [CallClose (handle c)]\<rparr>)"
  by (cases x) (simp_all add: close_open NovusDB_exit_def NovusDB_del_def)

text \<open>
  C2. \<open>close\<close> is idempotent. \<open>close\<close>, \<open>__exit__\<close> and \<open>__del__\<close> never raise.
  On an object whose handle is not zero, any non-empty sequence of them makes exactly one
  native call, \<open>NovusDB_close\<close> on that handle, made by the first of them: whatever
  the length of the sequence, the trace grows by that single call, the engine is in
  the state that one call left it in, and the handle is zero. On an object whose handle
  is zero, any sequence of them changes neither the object nor the world.
\<close>

theorem close_idempotent:
  "fst (close c w) = Inr () \<and> fst (NovusDB_exit c w) = Inr () \<and> fst (NovusDB_del c w) = Inr ()
   \<and> (handle c \<noteq> 0 \<longrightarrow> ks \<noteq> [] \<longrightarrow> list_all releases ks \<longrightarrow>
        run rt ks c w =
          (c\<lparr>handle := 0\<rparr>,
           \<lparr>engine = snd (NovusDB_close (lib c) (handle c) (engine w)),
            trace = trace w @ [CallClose (handle c)]\<rparr>))
   \<and> (handle c = 0 \<longrightarrow> list_all releases ks \<longrightarrow> run rt ks c w = (c, w))"
proof (intro conjI impI)
  assume h: "handle c \<noteq> 0" and ne: "ks \<noteq> []" and rel: "list_all releases ks"
  from ne obtain k ks' where ks: "ks = k # ks'" by (cases ks) auto
  with rel have k: "releases k" and rest: "list_all releases ks'" by simp_all
  show "run rt ks c w =
          (c\<lparr>handle := 0\<rparr>,
           \<lparr>engine = snd (NovusDB_close (lib c) (handle c) (engine w)),
            trace = trace w @ [CallClose (handle c)]\<rparr>)"
    by (simp add: ks step_release_open [OF k h] run_release_closed [OF rest])
qed (simp_all add: close_result NovusDB_exit_def NovusDB_del_def run_release_closed)

theorem close_idempotent_witness:
  "run stub_rt [Close, Exit, Del, Close] \<lparr>lib = stub_lib healthy, handle = 7\<rparr> w0 =
     (\<lparr>lib = stub_lib healthy, handle = 0\<rparr>, \<lparr>engine = 1, trace = [CallClose 7]\<rparr>)
   \<and> run stub_rt [Close, Del] \<lparr>lib = stub_lib healthy, handle = 0\<rparr> w0 =
     (\<lparr>lib = stub_lib healthy, handle = 0\<rparr>, w0)"
  using close_idempotent [of "\<lparr>lib = stub_lib healthy, handle = 7\<rparr>" w0 "[Close, Exit, Del, Close]" stub_rt]
    close_idempotent [of "\<lparr>lib = stub_lib healthy, handle = 0\<rparr>" w0 "[Close, Del]" stub_rt]
  by (simp add: stub_lib_def healthy_def w0_def)

text \<open>
  C6, as the code has it. When \<open>NovusDB_close\<close> reports a status other than zero on an
  open object, \<open>close\<close> still sets the handle to zero, after the one native call; the
  status is dropped and \<open>close\<close> returns normally.
\<close>

theorem close_ignores_status:
  "handle c \<noteq> 0 \<Longrightarrow> fst (NovusDB_close (lib c) (handle c) (engine w)) \<noteq> 0 \<Longrightarrow>
     fst (close c w) = Inr () \<and> handle (fst (snd (close c w))) = 0
     \<and> trace (snd (snd (close c w))) = trace w @ [CallClose (handle c)]"
  by (simp add: close_def call_close_def split: prod.splits)

theorem close_ignores_status_witness:
  "close (c7 (healthy\<lparr>on_close := 1\<rparr>)) w0 =
     (Inr (), c_closed (healthy\<lparr>on_close := 1\<rparr>), \<lparr>engine = 1, trace = [CallClose 7]\<rparr>)"
  using close_ignores_status [of "c7 (healthy\<lparr>on_close := 1\<rparr>)" w0]
  by (simp add: method_defs call_defs stub_defs)

text \<open>
  No error reaches the caller: on a stub whose \<open>NovusDB_close\<close> answers 1, \<open>close\<close>
  returns \<open>None\<close>.
\<close>

theorem close_error_counterexample:
  "fst (NovusDB_close (lib (c7 (healthy\<lparr>on_close := 1\<rparr>))) 7 (engine w0)) = 1
   \<and> fst (close (c7 (healthy\<lparr>on_close := 1\<rparr>)) w0) = Inr ()"
  by (simp add: method_defs call_defs stub_defs)

subsection \<open>The handle\<close>

lemma exec_conn: "fst (snd (exec rt c sql w)) = c"
  by (simp add: exec_def split: option.splits prod.splits sum.splits)

lemma last_error_conn: "fst (snd (last_error rt c w)) = c"
  by (simp add: last_error_def split: prod.splits)

lemma last_error_connD: "last_error rt c w = (r, c1, w1) \<Longrightarrow> c1 = c"
  using last_error_conn [of rt c w] by simp

lemma insert_json_conn: "fst (snd (insert_json rt c col js w)) = c"
  by (auto simp: insert_json_def dest: last_error_connD
      split: option.splits prod.splits sum.splits)

lemma collections_conn: "fst (snd (collections rt c w)) = c"
  by (simp add: collections_def split: prod.splits)

lemma dump_conn: "fst (snd (dump rt c w)) = c"
  by (simp add: dump_def split: prod.splits)

lemma step_keeps: "\<not> releases x \<Longrightarrow> fst (step rt x c w) = c"
  by (cases x)
    (simp_all add: exec_conn insert_json_conn collections_conn last_error_conn dump_conn
      NovusDB_enter_def)

lemma step_release_handle: "releases x \<Longrightarrow> handle (fst (step rt x c w)) = 0"
  by (cases x) (simp_all add: close_def NovusDB_exit_def NovusDB_del_def split: prod.splits)

lemma step_closed: "handle c = 0 \<Longrightarrow> handle (fst (step rt x c w)) = 0"
  by (cases "releases x") (simp_all add: step_release_handle step_keeps)

lemma run_closed: "handle c = 0 \<Longrightarrow> handle (fst (run rt xs c w)) = 0"
proof (induction xs arbitrary: c w)
  case Nil
  then show ?case by simp
next
  case (Cons x xs)
  obtain c1 w1 where s: "step rt x c w = (c1, w1)" by (cases "step rt x c w")
  with step_closed [OF Cons.prems, of rt x w] have "handle c1 = 0" by simp
  with Cons.IH s show ?case by simp
qed

lemma run_handle:
  "handle (fst (run rt xs c w)) = (if list_ex releases xs then 0 else handle c)"
proof (induction xs arbitrary: c w)
  case Nil
  then show ?case by simp
next
  case (Cons x xs)
  obtain c1 w1 where s: "step rt x c w = (c1, w1)" by (cases "step rt x c w")
  show ?case
  proof (cases "releases x")
    case True
    with step_release_handle [of x rt c w] s have "handle c1 = 0" by simp
    with run_closed [of c1 rt xs w1] s True show ?thesis by simp
  next
    case False
    with step_keeps [of x rt c w] s have "c1 = c" by simp
    with Cons.IH [of c w1] s False show ?thesis by simp
  qed
qed

text \<open>
  C3. An object that \<open>__init__\<close> returns has a handle that is not zero; \<open>close\<close>
  leaves the handle zero; and after any sequence of methods the handle is zero if one of
  them was \<open>close\<close>, \<open>__exit__\<close> or \<open>__del__\<close>, and is the handle the sequence started
  with otherwise. So the handle is not zero exactly from a successful open to the first
  close, and no method makes a zero handle non-zero again.
\<close>

theorem handle_invariant:
  "(case NovusDB_init rt L path w of (Inr c0, w1) \<Rightarrow> handle c0 \<noteq> 0 | (Inl e, w1) \<Rightarrow> True)
   \<and> handle (fst (snd (close c w))) = 0
   \<and> handle (fst (run rt xs c w)) = (if list_ex releases xs then 0 else handle c)"
  by (simp add: run_handle NovusDB_init_def close_def split: option.splits prod.splits)

theorem handle_invariant_witness:
  "handle (fst (run stub_rt [Exec ''SELECT 1'', Dump] (c7 healthy) w0)) = 7
   \<and> handle (fst (run stub_rt [Exec ''SELECT 1'', Close, Collections, Enter] (c7 healthy) w0)) = 0"
  using handle_invariant [of stub_rt "stub_lib healthy" "''t.db''" w0 "c7 healthy"
      "[Exec ''SELECT 1'', Dump]"]
    handle_invariant [of stub_rt "stub_lib healthy" "''t.db''" w0 "c7 healthy"
      "[Exec ''SELECT 1'', Close, Collections, Enter]"]
  by (simp add: c7_def)

text \<open>
  C9. A call of \<open>exec\<close> or \<open>insert_json\<close> that raises leaves the object as it was,
  handle included, and the next \<open>exec\<close> passes that same handle to the engine.
\<close>

theorem failure_keeps_handle:
  "(isl (fst (exec rt c sql w)) \<longrightarrow> fst (snd (exec rt c sql w)) = c)
   \<and> (isl (fst (insert_json rt c col js w)) \<longrightarrow> fst (snd (insert_json rt c col js w)) = c)
   \<and> (isl (fst (exec rt c sql w)) \<longrightarrow> encode rt sql2 = Some q2 \<longrightarrow>
        (case exec rt c sql w of
           (r, c1, w1) \<Rightarrow>
             trace (snd (snd (exec rt c1 sql2 w1))) = trace w1 @ [CallExec (handle c) q2]))
   \<and> (isl (fst (insert_json rt c col js w)) \<longrightarrow> encode rt sql2 = Some q2 \<longrightarrow>
        (case insert_json rt c col js w of
           (r, c1, w1) \<Rightarrow>
             trace (snd (snd (exec rt c1 sql2 w1))) = trace w1 @ [CallExec (handle c) q2]))"
proof -
  have next_call: "trace (snd (snd (exec rt c sql2 w1))) = trace w1 @ [CallExec (handle c) q2]"
    if "encode rt sql2 = Some q2" for w1 :: "'a world"
    using that by (simp add: exec_def call_exec_def split: prod.splits sum.splits)
  have a: "c1 = c" if "exec rt c sql w = (r, c1, w1)" for r c1 w1
    using exec_conn [of rt c sql w] that by simp
  have b: "c1 = c" if "insert_json rt c col js w = (r, c1, w1)" for r c1 w1
    using insert_json_conn [of rt c col js w] that by simp
  show ?thesis
    by (auto simp: exec_conn insert_json_conn next_call dest!: a b split: prod.splits)
qed

theorem failure_keeps_handle_witness:
  "fst (exec stub_rt (c7 (healthy\<lparr>on_exec := Some reply_error\<rparr>)) ''SELEC'' w0)
     = Inl (RuntimeError (PStr ''boom''))
   \<and> run stub_rt [Exec ''SELEC'', Exec ''SELECT 1'']
        (c7 (healthy\<lparr>on_exec := Some reply_error\<rparr>)) w0
     = (c7 (healthy\<lparr>on_exec := Some reply_error\<rparr>),
        \<lparr>engine = 2, trace = [CallExec 7 ''SELEC'', CallExec 7 ''SELECT 1'']\<rparr>)"
  using failure_keeps_handle [of stub_rt "c7 (healthy\<lparr>on_exec := Some reply_error\<rparr>)"
      "''SELEC''" w0 "''users''" "''{}''" "''SELECT 1''" "''SELECT 1''"]
  by (simp add: method_defs call_defs stub_defs)

subsection \<open>Opening\<close>

text \<open>
  C8. \<open>__init__\<close> raises the \<open>RuntimeError\<close> of line 108 exactly when \<open>NovusDB_open\<close> was
  called and returned the zero handle; the message is \<open>Failed to open database: \<close> followed
  by the path. When \<open>NovusDB_open\<close> returns a handle that is not zero, the object holds
  that handle. (A path that does not encode raises before the native call.)
\<close>

theorem open_error_iff:
  "((\<exists>m. fst (NovusDB_init rt L path w) = Inl (RuntimeError m))
      \<longleftrightarrow> (\<exists>p. encode rt path = Some p \<and> fst (NovusDB_open L p (engine w)) = 0))
   \<and> (\<forall>p. encode rt path = Some p \<longrightarrow> fst (NovusDB_open L p (engine w)) = 0 \<longrightarrow>
         fst (NovusDB_init rt L path w)
           = Inl (RuntimeError (PStr (''Failed to open database: '' @ path))))
   \<and> (\<forall>p. encode rt path = Some p \<longrightarrow> fst (NovusDB_open L p (engine w)) \<noteq> 0 \<longrightarrow>
         fst (NovusDB_init rt L path w)
           = Inr \<lparr>lib = L, handle = fst (NovusDB_open L p (engine w))\<rparr>)"
  by (auto simp: NovusDB_init_def call_open_def split: option.splits prod.splits)

theorem open_error_iff_witness:
  "fst (NovusDB_init stub_rt (stub_lib (healthy\<lparr>on_open := 0\<rparr>)) ''t.db'' w0)
     = Inl (RuntimeError (PStr ''Failed to open database: t.db''))
   \<and> fst (NovusDB_init stub_rt (stub_lib healthy) ''t.db'' w0)
     = Inr \<lparr>lib = stub_lib healthy, handle = 7\<rparr>"
  using open_error_iff [of stub_rt "stub_lib (healthy\<lparr>on_open := 0\<rparr>)" "''t.db''" w0]
    open_error_iff [of stub_rt "stub_lib healthy" "''t.db''" w0]
  by (simp add: stub_defs)

subsection \<open>exec\<close>

lemma exec_reply:
  "encode rt sql = Some q \<Longrightarrow>
     fst (exec rt c sql w) =
       (case loads_raw rt (fst (NovusDB_exec (lib c) (handle c) q (engine w))) of
          Inl e \<Rightarrow> Inl e | Inr v \<Rightarrow> exec_result v)"
  by (simp add: exec_def call_exec_def split: prod.splits sum.splits)

text \<open>
  C4, as the code has it. When the reply of \<open>NovusDB_exec\<close> decodes to a JSON value,
  \<open>exec\<close> raises \<open>RuntimeError\<close> exactly when that value is an object with the key
  \<open>error\<close>; the exception carries the value stored under \<open>error\<close>, unchanged; an object
  without the key \<open>error\<close> is returned as it is.
\<close>

theorem exec_query_error:
  assumes "encode rt sql = Some q"
    and "fst (NovusDB_exec (lib c) (handle c) q (engine w)) = Some b"
    and "decode rt b = Some s"
    and "json_loads rt s = Inr v"
  shows "((\<exists>m. fst (exec rt c sql w) = Inl (RuntimeError m))
            \<longleftrightarrow> (\<exists>d. v = PDict d \<and> map_of d ''error'' \<noteq> None))
    \<and> (\<forall>d m. v = PDict d \<longrightarrow> map_of d ''error'' = Some m \<longrightarrow>
           fst (exec rt c sql w) = Inl (RuntimeError m))
    \<and> (\<forall>d. v = PDict d \<longrightarrow> map_of d ''error'' = None \<longrightarrow> fst (exec rt c sql w) = Inr v)"
proof -
  have e: "fst (exec rt c sql w) = exec_result v"
    using assms by (simp add: exec_reply loads_raw_def)
  have r: "(\<exists>m. exec_result v = Inl (RuntimeError m))
             \<longleftrightarrow> (\<exists>d. v = PDict d \<and> map_of d ''error'' \<noteq> None)"
    by (cases v) (auto simp: exec_result_def split: sum.splits bool.splits option.splits)
  show ?thesis
    unfolding e using r by (auto simp: exec_result_def)
qed

theorem exec_query_error_witness:
  "fst (exec stub_rt (c7 (healthy\<lparr>on_exec := Some reply_error\<rparr>)) ''SELEC'' w0)
     = Inl (RuntimeError (PStr ''boom''))
   \<and> fst (exec stub_rt (c7 healthy) ''SELECT 1'' w0)
     = Inr (PDict [(''docs'', PList []), (''rows_affected'', PInt 1),
                   (''last_insert_id'', PInt 1)])"
  using exec_query_error [of stub_rt "''SELEC''" "''SELEC''"
      "c7 (healthy\<lparr>on_exec := Some reply_error\<rparr>)" w0 reply_error reply_error
      "PDict [(''error'', PStr ''boom'')]"]
    exec_query_error [of stub_rt "''SELECT 1''" "''SELECT 1''" "c7 healthy" w0 reply_ok reply_ok
      "PDict [(''docs'', PList []), (''rows_affected'', PInt 1), (''last_insert_id'', PInt 1)]"]
  by (simp add: c7_def stub_defs)

text \<open>
  The key \<open>message\<close> is not looked at: an object that has \<open>message\<close> and no \<open>error\<close> is
  returned as a result. And a reply that is not an object can raise an error of another
  kind: on the JSON text \<open>1\<close>, the test \<open>"error" in result\<close> raises \<open>TypeError\<close>.
\<close>

theorem message_key_counterexample:
  "fst (exec stub_rt (c7 (healthy\<lparr>on_exec := Some reply_message\<rparr>)) ''SELEC'' w0)
     = Inr (PDict [(''message'', PStr ''boom'')])
   \<and> json_loads stub_rt ''1'' = Inr (PInt 1)
   \<and> fst (exec stub_rt (c7 (healthy\<lparr>on_exec := Some ''1''\<rparr>)) ''SELECT 1'' w0) = Inl TypeError"
  by (simp add: method_defs call_defs stub_defs)

text \<open>
  C5, as the code has it. With the statement encoded and a reply that is not the null
  pointer: a reply that is not valid UTF-8 raises \<open>UnicodeDecodeError\<close>, which is not a
  \<open>RuntimeError\<close>; when \<open>json.loads\<close> raises on the decoded text, \<open>exec\<close> raises that
  same exception, \<open>JSONDecodeError\<close> for a text the parser rejects, \<open>ValueError\<close> for
  an integer literal over the digit limit, \<open>RecursionError\<close> for a text nested too
  deeply, and of the three only \<open>RecursionError\<close> is an instance of \<open>RuntimeError\<close>. An
  object without the key \<open>error\<close> is returned as it is, whichever fields it has:
  \<open>docs\<close>, \<open>rows_affected\<close> and \<open>last_insert_id\<close> are not checked.
\<close>

theorem exec_undecodable:
  assumes "encode rt sql = Some q"
    and "fst (NovusDB_exec (lib c) (handle c) q (engine w)) = Some b"
  shows "(decode rt b = None \<longrightarrow>
           fst (exec rt c sql w) = Inl UnicodeDecodeError
           \<and> \<not> raises_RuntimeError (fst (exec rt c sql w)))
    \<and> (\<forall>s f. decode rt b = Some s \<longrightarrow> json_loads rt s = Inl f \<longrightarrow>
           fst (exec rt c sql w) = Inl (loads_error f)
           \<and> (raises_RuntimeError (fst (exec rt c sql w)) \<longleftrightarrow> f = TooDeep))
    \<and> (\<forall>s d. decode rt b = Some s \<longrightarrow> json_loads rt s = Inr (PDict d) \<longrightarrow>
           map_of d ''error'' = None \<longrightarrow> fst (exec rt c sql w) = Inr (PDict d))"
proof (intro conjI allI impI)
  fix s f assume "decode rt b = Some s" "json_loads rt s = Inl f"
  with assms have r: "fst (exec rt c sql w) = Inl (loads_error f)"
    by (simp add: exec_reply loads_raw_def)
  then show "fst (exec rt c sql w) = Inl (loads_error f)" .
  from r show "raises_RuntimeError (fst (exec rt c sql w)) \<longleftrightarrow> f = TooDeep"
    by (cases f) (simp_all add: raises_RuntimeError_def)
qed (use assms in \<open>simp_all add: exec_reply loads_raw_def exec_result_def raises_RuntimeError_def\<close>)

theorem exec_undecodable_witness:
  "fst (exec stub_rt (c7 (healthy\<lparr>on_exec := Some ''{oops''\<rparr>)) ''SELECT 1'' w0)
     = Inl JSONDecodeError
   \<and> fst (exec stub_rt (c7 (healthy\<lparr>on_exec := Some deep\<rparr>)) ''SELECT 1'' w0)
     = Inl RecursionError
   \<and> fst (exec stub_rt (c7 (healthy\<lparr>on_exec := Some [CHR 0xFF]\<rparr>)) ''SELECT 1'' w0)
     = Inl UnicodeDecodeError
   \<and> fst (exec stub_rt (c7 healthy) ''SELECT 1'' w0)
     = Inr (PDict [(''docs'', PList []), (''rows_affected'', PInt 1),
                   (''last_insert_id'', PInt 1)])"
  using exec_undecodable [of stub_rt "''SELECT 1''" "''SELECT 1''"
      "c7 (healthy\<lparr>on_exec := Some ''{oops''\<rparr>)" w0 "''{oops''"]
    exec_undecodable [of stub_rt "''SELECT 1''" "''SELECT 1''"
      "c7 (healthy\<lparr>on_exec := Some deep\<rparr>)" w0 deep]
    exec_undecodable [of stub_rt "''SELECT 1''" "''SELECT 1''"
      "c7 (healthy\<lparr>on_exec := Some [CHR 0xFF]\<rparr>)" w0 "[CHR 0xFF]"]
    exec_undecodable [of stub_rt "''SELECT 1''" "''SELECT 1''" "c7 healthy" w0 reply_ok]
  by (simp add: method_defs call_defs stub_defs)

text \<open>
  The empty object has none of the three fields, and \<open>exec\<close> returns it.
\<close>

theorem missing_fields_counterexample:
  "json_loads stub_rt ''{}'' = Inr (PDict [])
   \<and> fst (exec stub_rt (c7 (healthy\<lparr>on_exec := Some ''{}''\<rparr>)) ''SELECT 1'' w0)
     = Inr (PDict [])"
  by (simp add: method_defs call_defs stub_defs)

subsection \<open>insert_json\<close>

text \<open>
  C7, as the code has it. With both arguments encoded, \<open>insert_json\<close> returns the id
  unchanged when it is not negative, and raises \<open>RuntimeError\<close> only when the id is
  negative. On a negative id it asks the engine for its error text: the exception carries
  that text when it is not empty, the fixed text \<open>insert_json failed\<close> when the engine
  returns the null pointer or the empty string, and when the text does not decode the
  \<open>UnicodeDecodeError\<close> is raised instead.
\<close>

theorem insert_json_outcome:
  assumes "encode rt col = Some cb" and "encode rt js = Some jb"
    and "NovusDB_insert_json (lib c) (handle c) cb jb (engine w) = (i, n1)"
  shows "(0 \<le> sint i \<longrightarrow> fst (insert_json rt c col js w) = Inr (sint i))
    \<and> (sint i < 0 \<longrightarrow>
          fst (insert_json rt c col js w) =
            (case decode_or_empty rt (fst (NovusDB_error (lib c) (handle c) n1)) of
               Inl e \<Rightarrow> Inl e
             | Inr err \<Rightarrow>
                 Inl (RuntimeError (PStr (if err = [] then ''insert_json failed'' else err)))))
    \<and> ((\<exists>m. fst (insert_json rt c col js w) = Inl (RuntimeError m)) \<longrightarrow> sint i < 0)"
  using assms
  by (auto simp: insert_json_def call_insert_json_def last_error_def call_error_def
      split: prod.splits sum.splits)

theorem insert_json_outcome_witness:
  "fst (insert_json stub_rt (c7 healthy) ''users'' ''{}'' w0) = Inr 1
   \<and> fst (insert_json stub_rt (c7 (healthy\<lparr>on_insert_json := - 1, on_error := Some ''bad json''\<rparr>))
        ''users'' ''{'' w0) = Inl (RuntimeError (PStr ''bad json''))"
  using insert_json_outcome [of stub_rt "''users''" "''users''" "''{}''" "''{}''" "c7 healthy" w0 1 1]
    insert_json_outcome [of stub_rt "''users''" "''users''" "''{''" "''{''"
      "c7 (healthy\<lparr>on_insert_json := - 1, on_error := Some ''bad json''\<rparr>)" w0 "- 1" 1]
  by (simp add: c7_def stub_defs decode_or_empty_def)

text \<open>
  With no error text recorded, \<open>last_error\<close> returns the empty string and the exception
  carries \<open>insert_json failed\<close>, a text that did not come from the engine.
\<close>

theorem insert_error_message_counterexample:
  "fst (last_error stub_rt (c7 (healthy\<lparr>on_insert_json := - 1\<rparr>)) w0) = Inr ''''
   \<and> fst (insert_json stub_rt (c7 (healthy\<lparr>on_insert_json := - 1\<rparr>)) ''users'' ''{'' w0)
     = Inl (RuntimeError (PStr ''insert_json failed''))"
  by (simp add: method_defs call_defs stub_defs)

subsection \<open>dump and last_error\<close>

text \<open>
  C10. When \<open>NovusDB_dump\<close> returns the null pointer, \<open>dump\<close> returns the empty string,
  and when \<open>NovusDB_error\<close> returns the null pointer, \<open>last_error\<close> returns the empty
  string; neither raises.
\<close>

theorem null_reply_is_empty:
  "(fst (NovusDB_dump (lib c) (handle c) (engine w)) = None \<longrightarrow> fst (dump rt c w) = Inr '''')
   \<and> (fst (NovusDB_error (lib c) (handle c) (engine w)) = None \<longrightarrow>
        fst (last_error rt c w) = Inr '''')"
  by (simp add: dump_def last_error_def call_dump_def call_error_def decode_or_empty_def
      split: prod.splits)

theorem null_reply_is_empty_witness:
  "fst (dump stub_rt (c7 (healthy\<lparr>on_dump := None\<rparr>)) w0) = Inr ''''
   \<and> fst (last_error stub_rt (c7 (healthy\<lparr>on_error := None\<rparr>)) w0) = Inr ''''"
  using null_reply_is_empty [of "c7 (healthy\<lparr>on_dump := None\<rparr>)" w0 stub_rt]
    null_reply_is_empty [of "c7 (healthy\<lparr>on_error := None\<rparr>)" w0 stub_rt]
  by (simp add: c7_def stub_defs)

subsection \<open>Methods on a closed object\<close>

text \<open>
  C1, as the code has it. No method tests the handle before its native call. On an object
  whose handle is zero:
  \<^item> \<open>exec\<close> raises \<open>UnicodeEncodeError\<close> without a native call when its argument does
    not encode; otherwise it makes exactly one native call, \<open>NovusDB_exec\<close> with handle 0,
    and returns or raises what that reply decides;
  \<^item> \<open>insert_json\<close> raises \<open>UnicodeEncodeError\<close> without a native call when one of its
    arguments does not encode; otherwise it calls \<open>NovusDB_insert_json\<close> with handle 0,
    returns the id when it is not negative, and on a negative id calls \<open>NovusDB_error\<close>
    with handle 0 and raises, as on an open object;
  \<^item> \<open>collections\<close>, \<open>dump\<close> and \<open>last_error\<close> each make exactly one native call, with
    handle 0, and return or raise what that reply decides.
\<close>

theorem closed_calls_reach_engine:
  assumes "handle c = 0"
  shows "(encode rt sql = None \<longrightarrow> exec rt c sql w = (Inl UnicodeEncodeError, c, w))
    \<and> (\<forall>q. encode rt sql = Some q \<longrightarrow>
            trace (snd (snd (exec rt c sql w))) = trace w @ [CallExec 0 q]
            \<and> fst (exec rt c sql w) =
                (case loads_raw rt (fst (NovusDB_exec (lib c) 0 q (engine w))) of
                   Inl e \<Rightarrow> Inl e | Inr v \<Rightarrow> exec_result v))
    \<and> (encode rt col = None \<or> encode rt js = None \<longrightarrow>
            insert_json rt c col js w = (Inl UnicodeEncodeError, c, w))
    \<and> (\<forall>cb jb i n1. encode rt col = Some cb \<longrightarrow> encode rt js = Some jb \<longrightarrow>
            NovusDB_insert_json (lib c) 0 cb jb (engine w) = (i, n1) \<longrightarrow>
            trace (snd (snd (insert_json rt c col js w))) =
              trace w @ CallInsert 0 cb jb # (if sint i < 0 then [CallError 0] else [])
            \<and> fst (insert_json rt c col js w) =
                (if sint i < 0
                 then (case decode_or_empty rt (fst (NovusDB_error (lib c) 0 n1)) of
                         Inl e \<Rightarrow> Inl e
                       | Inr err \<Rightarrow>
                           Inl (RuntimeError
                             (PStr (if err = [] then ''insert_json failed'' else err))))
                 else Inr (sint i)))
    \<and> trace (snd (snd (collections rt c w))) = trace w @ [CallCollections 0]
    \<and> fst (collections rt c w) = loads_raw rt (fst (NovusDB_collections (lib c) 0 (engine w)))
    \<and> trace (snd (snd (dump rt c w))) = trace w @ [CallDump 0]
    \<and> fst (dump rt c w) = decode_or_empty rt (fst (NovusDB_dump (lib c) 0 (engine w)))
    \<and> trace (snd (snd (last_error rt c w))) = trace w @ [CallError 0]
    \<and> fst (last_error rt c w) = decode_or_empty rt (fst (NovusDB_error (lib c) 0 (engine w)))"
proof (intro conjI allI impI)
  assume "encode rt sql = None"
  then show "exec rt c sql w = (Inl UnicodeEncodeError, c, w)"
    by (simp add: exec_def)
next
  fix q assume q: "encode rt sql = Some q"
  with assms show "trace (snd (snd (exec rt c sql w))) = trace w @ [CallExec 0 q]"
    by (simp add: exec_def call_exec_def split: prod.splits sum.splits)
  from assms exec_reply [OF q, of c w]
  show "fst (exec rt c sql w) =
          (case loads_raw rt (fst (NovusDB_exec (lib c) 0 q (engine w))) of
             Inl e \<Rightarrow> Inl e | Inr v \<Rightarrow> exec_result v)"
    by simp
next
  assume "encode rt col = None \<or> encode rt js = None"
  then show "insert_json rt c col js w = (Inl UnicodeEncodeError, c, w)"
    by (auto simp: insert_json_def split: option.splits)
next
  fix cb jb i n1
  assume e: "encode rt col = Some cb" "encode rt js = Some jb"
    and r: "NovusDB_insert_json (lib c) 0 cb jb (engine w) = (i, n1)"
  from assms e r show "trace (snd (snd (insert_json rt c col js w))) =
      trace w @ CallInsert 0 cb jb # (if sint i < 0 then [CallError 0] else [])"
    by (auto simp: insert_json_def call_insert_json_def last_error_def call_error_def
        split: prod.splits sum.splits)
  from assms e r show "fst (insert_json rt c col js w) =
      (if sint i < 0
       then (case decode_or_empty rt (fst (NovusDB_error (lib c) 0 n1)) of
               Inl e \<Rightarrow> Inl e
             | Inr err \<Rightarrow>
                 Inl (RuntimeError (PStr (if err = [] then ''insert_json failed'' else err))))
       else Inr (sint i))"
    by (auto simp: insert_json_def call_insert_json_def last_error_def call_error_def
        split: prod.splits sum.splits)
qed (simp_all add: assms collections_def dump_def last_error_def call_defs split: prod.splits)

theorem closed_calls_reach_engine_witness:
  "exec stub_rt (c_closed healthy) ''SELECT 1'' w0 =
     (Inr (PDict [(''docs'', PList []), (''rows_affected'', PInt 1),
                  (''last_insert_id'', PInt 1)]),
      c_closed healthy, \<lparr>engine = 1, trace = [CallExec 0 ''SELECT 1'']\<rparr>)
   \<and> fst (insert_json stub_rt (c_closed healthy) ''users'' ''{}'' w0) = Inr 1
   \<and> trace (snd (snd (insert_json stub_rt (c_closed healthy) ''users'' ''{}'' w0)))
       = [CallInsert 0 ''users'' ''{}'']
   \<and> fst (insert_json stub_rt
          (c_closed (healthy\<lparr>on_insert_json := - 1, on_error := Some ''bad handle''\<rparr>))
          ''users'' ''{}'' w0) = Inl (RuntimeError (PStr ''bad handle''))
   \<and> trace (snd (snd (insert_json stub_rt
          (c_closed (healthy\<lparr>on_insert_json := - 1, on_error := Some ''bad handle''\<rparr>))
          ''users'' ''{}'' w0))) = [CallInsert 0 ''users'' ''{}'', CallError 0]
   \<and> insert_json stub_rt (c_closed healthy) [CHR 0xFF] ''{}'' w0
       = (Inl UnicodeEncodeError, c_closed healthy, w0)
   \<and> trace (snd (snd (collections stub_rt (c_closed healthy) w0))) = [CallCollections 0]
   \<and> trace (snd (snd (dump stub_rt (c_closed healthy) w0))) = [CallDump 0]
   \<and> trace (snd (snd (last_error stub_rt (c_closed healthy) w0))) = [CallError 0]"
  using closed_calls_reach_engine [of "c_closed healthy" stub_rt "''SELECT 1''" w0 "''users''" "''{}''"]
    closed_calls_reach_engine [of
      "c_closed (healthy\<lparr>on_insert_json := - 1, on_error := Some ''bad handle''\<rparr>)" stub_rt
      "''SELECT 1''" w0 "''users''" "''{}''"]
    closed_calls_reach_engine [of "c_closed healthy" stub_rt "''SELECT 1''" w0 "[CHR 0xFF]" "''{}''"]
  by (simp add: method_defs call_defs stub_defs)

text \<open>
  On the stub, \<open>exec\<close> on a closed object returns a result, and after \<open>close\<close> the
  engine sees the call \<open>NovusDB_exec(0, ...)\<close>.
\<close>

theorem use_after_close_counterexample:
  "handle (c_closed healthy) = 0
   \<and> exec stub_rt (c_closed healthy) ''SELECT 1'' w0 =
       (Inr (PDict [(''docs'', PList []), (''rows_affected'', PInt 1),
                    (''last_insert_id'', PInt 1)]),
        c_closed healthy, \<lparr>engine = 1, trace = [CallExec 0 ''SELECT 1'']\<rparr>)
   \<and> run stub_rt [Close, Exec ''SELECT 1''] (c7 healthy) w0 =
       (c_closed healthy, \<lparr>engine = 2, trace = [CallClose 7, CallExec 0 ''SELECT 1'']\<rparr>)"
  by (simp add: method_defs call_defs stub_defs)

end
